theory Spec2Isabelle
  imports Main "HOL-Library.Word"
begin

section \<open>JavaScript values\<close>

text \<open>
  The constructors of \<^verbatim>\<open>src/index.js\<close> take untyped arguments: an omitted argument is
  \<^verbatim>\<open>undefined\<close>, the message of \<^verbatim>\<open>ErrorFieldNotValid\<close> may be the boolean \<^verbatim>\<open>false\<close>, the
  argument of \<^verbatim>\<open>ErrorDataError\<close> may be an object. The values are the data values of the
  language: numbers are the 32-bit integers, read as signed (each is a number of the language
  and prints as its decimal digits), an object is the list of its own properties in
  insertion order (the first binding of a key is the one read), and no value is callable.
\<close>

datatype jsval =
    Undefined
  | Null
  | Bool bool
  | Num "32 word"
  | Str string
  | Arr "jsval list"
  | Obj "(string \<times> jsval) list"

datatype js_error = TypeError

text \<open>Truthiness, as tested by \<^verbatim>\<open>message ? ... : ...\<close> and \<^verbatim>\<open>if (err.asBoom)\<close>.\<close>

fun truthy :: "jsval \<Rightarrow> bool" where
  "truthy Undefined = False"
| "truthy Null = False"
| "truthy (Bool b) = b"
| "truthy (Num n) = (n \<noteq> 0)"
| "truthy (Str s) = (s \<noteq> [])"
| "truthy (Arr xs) = True"
| "truthy (Obj ps) = True"

text \<open>Decimal digits of a natural number, for the string form of a number.\<close>

fun show_nat :: "nat \<Rightarrow> string" where
  "show_nat n =
     (if n < 10 then [''0123456789'' ! n]
      else show_nat (n div 10) @ [''0123456789'' ! (n mod 10)])"

declare show_nat.simps [simp del]

text \<open>
  The string conversion of the language, applied by \<^verbatim>\<open>new Error(message)\<close> and by a template
  literal, and \<^verbatim>\<open>Array.prototype.join\<close>, where \<^verbatim>\<open>undefined\<close> and \<^verbatim>\<open>null\<close> elements are
  rendered as the empty string. An object is converted by its \<^verbatim>\<open>toString\<close> method: the
  inherited one gives \<^verbatim>\<open>[object Object]\<close>; an own property \<^verbatim>\<open>toString\<close> hides it and, being
  data, cannot be called, and the fallback \<^verbatim>\<open>valueOf\<close> yields no primitive, so the conversion
  throws a \<^verbatim>\<open>TypeError\<close>.
\<close>

fun to_string :: "jsval \<Rightarrow> js_error + string"
  and join :: "string \<Rightarrow> jsval list \<Rightarrow> js_error + string" where
  "to_string Undefined = Inr ''undefined''"
| "to_string Null = Inr ''null''"
| "to_string (Bool b) = Inr (if b then ''true'' else ''false'')"
| "to_string (Num n) =
     Inr (if sint n < 0 then CHR ''-'' # show_nat (nat (- sint n)) else show_nat (nat (sint n)))"
| "to_string (Str s) = Inr s"
| "to_string (Arr xs) = join '','' xs"
| "to_string (Obj ps) =
     (if map_of ps ''toString'' = None then Inr ''[object Object]'' else Inl TypeError)"
| "join sep [] = Inr []"
| "join sep [x] = (if x = Undefined \<or> x = Null then Inr [] else to_string x)"
| "join sep (x # y # ys) =
     (case (if x = Undefined \<or> x = Null then Inr [] else to_string x) of
        Inl e \<Rightarrow> Inl e
      | Inr s \<Rightarrow>
          (case join sep (y # ys) of
             Inl e \<Rightarrow> Inl e
           | Inr t \<Rightarrow> Inr (s @ sep @ t)))"

text \<open>
  Reading a property of a value that is neither \<^verbatim>\<open>undefined\<close> nor \<^verbatim>\<open>null\<close>. The names read
  by the source (\<^verbatim>\<open>asBoom\<close>, \<^verbatim>\<open>name\<close>, \<^verbatim>\<open>path\<close>, \<^verbatim>\<open>message\<close>, \<^verbatim>\<open>type\<close>, \<^verbatim>\<open>fieldname\<close>) are
  defined on no primitive and on no array, so there the read gives \<^verbatim>\<open>undefined\<close>.
\<close>

fun get_prop :: "jsval \<Rightarrow> string \<Rightarrow> jsval" where
  "get_prop (Obj ps) k = (case map_of ps k of None \<Rightarrow> Undefined | Some v \<Rightarrow> v)"
| "get_prop v k = Undefined"

text \<open>\<^verbatim>\<open>v instanceof Object\<close> on a data value.\<close>

fun instanceof_Object :: "jsval \<Rightarrow> bool" where
  "instanceof_Object (Arr xs) = True"
| "instanceof_Object (Obj ps) = True"
| "instanceof_Object v = False"

section \<open>The Boom collaborator\<close>

text \<open>
  \<^verbatim>\<open>@hapi/boom\<close> is an external package. A factory \<^verbatim>\<open>Boom.xyz(messageOrError)\<close> builds
  \<^verbatim>\<open>new Error(messageOrError ? messageOrError : undefined)\<close> and initialises it for its HTTP
  status: an error left without a message takes the reason phrase of the status as its
  message; \<^verbatim>\<open>output.payload\<close> holds the status, the reason phrase as \<^verbatim>\<open>error\<close>, and as
  \<^verbatim>\<open>message\<close> the message of the error, except for status 500, where the payload always
  reads \<^verbatim>\<open>An internal server error occurred\<close>. The payload has no \<^verbatim>\<open>details\<close> until the
  caller assigns them. \<open>boom_message\<close> is the \<^verbatim>\<open>message\<close> of the returned error,
  \<open>output_statusCode\<close> is \<^verbatim>\<open>output.statusCode\<close> (which \<^verbatim>\<open>output.payload.statusCode\<close>
  repeats), the other three fields are those of \<^verbatim>\<open>output.payload\<close>.
\<close>

record boom =
  boom_message :: string
  output_statusCode :: nat
  payload_error :: string
  payload_message :: string
  payload_details :: "jsval option"

text \<open>The message of \<^verbatim>\<open>new Error(messageOrError ? messageOrError : undefined)\<close>.\<close>

definition Boom_error_message :: "jsval \<Rightarrow> js_error + string" where
  "Boom_error_message messageOrError =
     (if truthy messageOrError then to_string messageOrError else Inr [])"

definition Boom_new :: "nat \<Rightarrow> string \<Rightarrow> jsval \<Rightarrow> js_error + boom" where
  "Boom_new statusCode reason messageOrError =
     map_sum id
       (\<lambda>s. let m = (if s = [] then reason else s)
            in \<lparr>boom_message = m, output_statusCode = statusCode, payload_error = reason,
                payload_message =
                  (if statusCode = 500 then ''An internal server error occurred'' else m),
                payload_details = None\<rparr>)
       (Boom_error_message messageOrError)"

definition Boom_badData :: "jsval \<Rightarrow> js_error + boom" where
  "Boom_badData m = Boom_new 422 ''Unprocessable Entity'' m"

definition Boom_notImplemented :: "jsval \<Rightarrow> js_error + boom" where
  "Boom_notImplemented m = Boom_new 501 ''Not Implemented'' m"

definition Boom_forbidden :: "jsval \<Rightarrow> js_error + boom" where
  "Boom_forbidden m = Boom_new 403 ''Forbidden'' m"

definition Boom_notFound :: "jsval \<Rightarrow> js_error + boom" where
  "Boom_notFound m = Boom_new 404 ''Not Found'' m"

definition Boom_conflict :: "jsval \<Rightarrow> js_error + boom" where
  "Boom_conflict m = Boom_new 409 ''Conflict'' m"

definition Boom_badImplementation :: "jsval \<Rightarrow> js_error + boom" where
  "Boom_badImplementation m = Boom_new 500 ''Internal Server Error'' m"

section \<open>The error classes\<close>

text \<open>
  An instance carries the class it was created from (which decides the \<^verbatim>\<open>asBoom\<close> method
  it answers to) and its properties. A property that no constructor assigned reads
  \<^verbatim>\<open>undefined\<close>; \<^verbatim>\<open>name\<close> is inherited from \<^verbatim>\<open>Error.prototype\<close> until assigned. \<^verbatim>\<open>errors\<close> is
  assigned and read by \<^verbatim>\<open>ErrorDataError\<close> alone and is the empty list elsewhere; the
  property \<^verbatim>\<open>fields\<close> is the field \<open>fields'\<close>. A constructor throws where a string
  conversion it performs throws.
\<close>

datatype cls =
    C_ErrorBase
  | C_ErrorNotImplemented
  | C_ErrorTyped
  | C_ErrorNotFound
  | C_ErrorDuplicate
  | C_ErrorAccessDenied
  | C_ErrorDocumentNotFound
  | C_ErrorFieldNotFound
  | C_ErrorFieldNotValid
  | C_ErrorFile
  | C_ErrorFieldNotAllowed
  | C_ErrorBadRequest
  | C_ErrorServerError
  | C_ErrorUnknown
  | C_ErrorDataError

record err =
  cls :: cls
  message :: string
  boomStatus :: jsval
  type :: jsval
  name :: jsval
  fieldname :: jsval
  fieldName :: jsval
  document :: jsval
  fields' :: jsval
  errors :: "jsval list"

text \<open>\<^verbatim>\<open>new Error(message)\<close>: no message when the argument is \<^verbatim>\<open>undefined\<close>, its string otherwise.\<close>

definition Error_message :: "jsval \<Rightarrow> js_error + string" where
  "Error_message m = (if m = Undefined then Inr [] else to_string m)"

text \<open>\<^verbatim>\<open>constructor(message, status = 500)\<close> of \<^verbatim>\<open>ErrorBase\<close>, run for the class \<open>c\<close>.\<close>

definition ErrorBase :: "cls \<Rightarrow> jsval \<Rightarrow> jsval \<Rightarrow> js_error + err" where
  "ErrorBase c msg status =
     map_sum id
       (\<lambda>s. \<lparr>cls = c, message = s,
             boomStatus = (if status = Undefined then Num 500 else status),
             type = Undefined, name = Str ''Error'', fieldname = Undefined,
             fieldName = Undefined, document = Undefined, fields' = Undefined, errors = []\<rparr>)
       (Error_message msg)"

definition ErrorNotImplemented :: "jsval \<Rightarrow> jsval \<Rightarrow> js_error + err" where
  "ErrorNotImplemented msg status =
     map_sum id (\<lambda>this. this\<lparr>type := Str ''ErrorNotImplemented''\<rparr>)
       (ErrorBase C_ErrorNotImplemented msg status)"

definition ErrorTyped :: "jsval \<Rightarrow> jsval \<Rightarrow> js_error + err" where
  "ErrorTyped ty msg =
     map_sum id (\<lambda>this. this\<lparr>type := ty\<rparr>) (ErrorBase C_ErrorTyped msg Undefined)"

definition ErrorNotFound :: "jsval \<Rightarrow> jsval \<Rightarrow> jsval \<Rightarrow> js_error + err" where
  "ErrorNotFound field msg status =
     (let field = (if field = Undefined then Str ''no name'' else field);
          msg = (if msg = Undefined then Str ''not found'' else msg)
      in map_sum id (\<lambda>this. this\<lparr>type := Str ''ErrorNotFound'', name := field\<rparr>)
           (ErrorBase C_ErrorNotFound msg Undefined))"

definition ErrorDuplicate :: "jsval \<Rightarrow> jsval \<Rightarrow> jsval \<Rightarrow> js_error + err" where
  "ErrorDuplicate fname msg status =
     (let fname = (if fname = Undefined then Str ''no name'' else fname);
          msg = (if msg = Undefined then Str ''duplicate'' else msg)
      in map_sum id (\<lambda>this. this\<lparr>type := Str ''ErrorDuplicate'', fieldname := fname\<rparr>)
           (ErrorBase C_ErrorDuplicate msg status))"

definition ErrorAccessDenied :: "jsval \<Rightarrow> jsval \<Rightarrow> js_error + err" where
  "ErrorAccessDenied msg status =
     (let msg = (if msg = Undefined then Str ''access denied'' else msg)
      in map_sum id (\<lambda>this. this\<lparr>type := Str ''ErrorAccessDenied''\<rparr>)
           (ErrorBase C_ErrorAccessDenied msg status))"

definition ErrorDocumentNotFound :: "jsval \<Rightarrow> jsval \<Rightarrow> jsval \<Rightarrow> js_error + err" where
  "ErrorDocumentNotFound doc msg status =
     (let doc = (if doc = Undefined then Str [] else doc);
          msg = (if msg = Undefined then Str ''document not found'' else msg)
      in map_sum id (\<lambda>this. this\<lparr>document := doc, type := Str ''ErrorDocumentNotFound''\<rparr>)
           (ErrorBase C_ErrorDocumentNotFound msg status))"

definition ErrorFieldNotFound :: "jsval \<Rightarrow> jsval \<Rightarrow> jsval \<Rightarrow> js_error + err" where
  "ErrorFieldNotFound fName msg status =
     (let fName = (if fName = Undefined then Str [] else fName)
      in case (if msg = Undefined
               then map_sum id (\<lambda>s. Str (''field ('' @ s @ '') was not found''))
                      (to_string fName)
               else Inr msg) of
           Inl e \<Rightarrow> Inl e
         | Inr m \<Rightarrow>
             map_sum id (\<lambda>this. this\<lparr>fieldName := fName, type := Str ''ErrorFieldNotFound''\<rparr>)
               (ErrorBase C_ErrorFieldNotFound m status))"

definition ErrorFieldNotValid :: "jsval \<Rightarrow> jsval \<Rightarrow> jsval \<Rightarrow> js_error + err" where
  "ErrorFieldNotValid fname msg status =
     (let fname = (if fname = Undefined then Str [] else fname);
          msg = (if msg = Undefined then Str ''data not valid'' else msg)
      in map_sum id
           (\<lambda>this. this\<lparr>fieldname :=
                            (if msg = Bool False then Str '' -- no field --'' else fname),
                         type := Str ''ErrorFieldNotValid''\<rparr>)
           (ErrorBase C_ErrorFieldNotValid (if msg = Bool False then fname else msg) status))"

definition ErrorFile :: "jsval \<Rightarrow> jsval \<Rightarrow> jsval \<Rightarrow> js_error + err" where
  "ErrorFile filename msg status =
     (let filename = (if filename = Undefined then Str [] else filename);
          msg = (if msg = Undefined then Str ''file error found'' else msg)
      in map_sum id (\<lambda>this. this\<lparr>document := filename, type := Str ''ErrorFile''\<rparr>)
           (ErrorBase C_ErrorFile msg status))"

text \<open>
  The template of \<^verbatim>\<open>ErrorFieldNotAllowed\<close> reads \<^verbatim>\<open>fields.length\<close> and calls
  \<^verbatim>\<open>fields.join(', ')\<close>: on \<^verbatim>\<open>undefined\<close> and \<^verbatim>\<open>null\<close> the read throws, and on every other
  data value that is not an array \<^verbatim>\<open>join\<close> is not a function, so the call throws.
\<close>

fun fields_template :: "jsval \<Rightarrow> js_error + string" where
  "fields_template (Arr xs) =
     map_sum id
       (\<lambda>j. ''field'' @ (if length xs > 1 then ''s'' else []) @ '' \"'' @ j @ ''\" not defined'')
       (join '', '' xs)"
| "fields_template v = Inl TypeError"

definition ErrorFieldNotAllowed :: "jsval \<Rightarrow> jsval \<Rightarrow> jsval \<Rightarrow> js_error + err" where
  "ErrorFieldNotAllowed flds msg status =
     (let msg = (if msg = Undefined then Bool False else msg)
      in case (if truthy msg then Inr msg else map_sum id Str (fields_template flds)) of
           Inl e \<Rightarrow> Inl e
         | Inr m \<Rightarrow>
             map_sum id (\<lambda>this. this\<lparr>type := Str ''ErrorFieldNotAllowed'', fields' := flds\<rparr>)
               (ErrorBase C_ErrorFieldNotAllowed m status))"

definition ErrorBadRequest :: "jsval \<Rightarrow> jsval \<Rightarrow> js_error + err" where
  "ErrorBadRequest msg status =
     map_sum id (\<lambda>this. this\<lparr>type := Str ''ErrorBadRequest''\<rparr>)
       (ErrorBase C_ErrorBadRequest msg status)"

definition ErrorServerError :: "jsval \<Rightarrow> jsval \<Rightarrow> js_error + err" where
  "ErrorServerError msg status =
     map_sum id (\<lambda>this. this\<lparr>type := Str ''ErrorServerError''\<rparr>)
       (ErrorBase C_ErrorServerError msg status)"

definition ErrorUnknown :: "jsval \<Rightarrow> jsval \<Rightarrow> js_error + err" where
  "ErrorUnknown msg status =
     map_sum id (\<lambda>this. this\<lparr>type := Str ''ErrorUnknown''\<rparr>)
       (ErrorBase C_ErrorUnknown msg status)"

subsection \<open>The aggregator\<close>

definition add :: "err \<Rightarrow> jsval \<Rightarrow> jsval \<Rightarrow> jsval \<Rightarrow> jsval \<Rightarrow> err" where
  "add this ty fname msg data =
     this\<lparr>errors := errors this @
       [Obj [(''type'', ty), (''fieldname'', fname), (''message'', msg), (''data'', data)]]\<rparr>"

definition ErrorDataError :: "jsval \<Rightarrow> jsval \<Rightarrow> js_error + err" where
  "ErrorDataError msg status =
     (let msg = (if msg = Undefined then Str ''data error'' else msg)
      in if instanceof_Object msg
         then map_sum id
                (\<lambda>this. (add (this\<lparr>errors := []\<rparr>)
                           (get_prop msg ''type'') (get_prop msg ''fieldname'')
                           (get_prop msg ''message'') Undefined)
                        \<lparr>name := Str ''ErrorDataError''\<rparr>)
                (ErrorBase C_ErrorDataError (Str ''data error'')
                   (if status \<noteq> Undefined then status else Num 401))
         else map_sum id (\<lambda>this. this\<lparr>errors := [], name := Str ''ErrorDataError''\<rparr>)
                (ErrorBase C_ErrorDataError msg (Num 401)))"

text \<open>The getter \<^verbatim>\<open>length\<close>.\<close>

definition length_errors :: "err \<Rightarrow> nat" where
  "length_errors this = length (errors this)"

text \<open>
  \<^verbatim>\<open>error(index)\<close> is \<^verbatim>\<open>this.errors[index]\<close>: an array read, which gives \<^verbatim>\<open>undefined\<close> at an
  index that holds no element.
\<close>

definition error :: "err \<Rightarrow> int \<Rightarrow> jsval" where
  "error this index =
     (if 0 \<le> index \<and> index < int (length (errors this)) then errors this ! nat index
      else Undefined)"

section \<open>Conversion\<close>

definition ErrorBase_asBoom :: "err \<Rightarrow> js_error + boom" where
  "ErrorBase_asBoom this = Boom_badData (Str (message this))"

definition ErrorNotImplemented_asBoom :: "err \<Rightarrow> js_error + boom" where
  "ErrorNotImplemented_asBoom this = Boom_notImplemented (Str (message this))"

definition ErrorTyped_asBoom :: "err \<Rightarrow> js_error + boom" where
  "ErrorTyped_asBoom this = Boom_forbidden (Str (message this))"

definition ErrorNotFound_asBoom :: "err \<Rightarrow> js_error + boom" where
  "ErrorNotFound_asBoom this =
     map_sum id (\<lambda>b. b\<lparr>payload_details := Some (Obj [(''fieldname'', fieldname this)])\<rparr>)
       (Boom_notFound (Str (message this)))"

definition ErrorDuplicate_asBoom :: "err \<Rightarrow> js_error + boom" where
  "ErrorDuplicate_asBoom this =
     map_sum id
       (\<lambda>b. b\<lparr>payload_details :=
                Some (Obj [(''fieldname'', fieldname this), (''message'', Str (message this))])\<rparr>)
       (Boom_conflict (Str ''duplicate''))"

definition ErrorAccessDenied_asBoom :: "err \<Rightarrow> js_error + boom" where
  "ErrorAccessDenied_asBoom this = Boom_forbidden (Str (message this))"

definition ErrorDocumentNotFound_asBoom :: "err \<Rightarrow> js_error + boom" where
  "ErrorDocumentNotFound_asBoom this =
     map_sum id (\<lambda>b. b\<lparr>payload_details := Some (Obj [(''document'', document this)])\<rparr>)
       (Boom_notFound (Str (message this)))"

definition ErrorFieldNotFound_asBoom :: "err \<Rightarrow> js_error + boom" where
  "ErrorFieldNotFound_asBoom this =
     map_sum id (\<lambda>b. b\<lparr>payload_details := Some (Obj [(''fieldName'', fieldName this)])\<rparr>)
       (Boom_notFound (Str (message this)))"

definition ErrorFieldNotValid_asBoom :: "err \<Rightarrow> js_error + boom" where
  "ErrorFieldNotValid_asBoom this =
     map_sum id
       (\<lambda>b. b\<lparr>payload_details :=
                Some (Obj [(''fieldname'', fieldname this), (''message'', Str (message this))])\<rparr>)
       (Boom_conflict (Str ''not valid''))"

definition ErrorFile_asBoom :: "err \<Rightarrow> js_error + boom" where
  "ErrorFile_asBoom this =
     map_sum id
       (\<lambda>b. b\<lparr>payload_details :=
                Some (Obj [(''document'', document this), (''message'', Str (message this))])\<rparr>)
       (Boom_notFound (Str ''file not found''))"

text \<open>
  Method lookup: a class that declares no \<^verbatim>\<open>asBoom\<close> of its own answers with the one of
  \<^verbatim>\<open>ErrorBase\<close>.
\<close>

fun asBoom :: "err \<Rightarrow> js_error + boom" where
  "asBoom this =
     (case cls this of
        C_ErrorNotImplemented \<Rightarrow> ErrorNotImplemented_asBoom this
      | C_ErrorTyped \<Rightarrow> ErrorTyped_asBoom this
      | C_ErrorNotFound \<Rightarrow> ErrorNotFound_asBoom this
      | C_ErrorDuplicate \<Rightarrow> ErrorDuplicate_asBoom this
      | C_ErrorAccessDenied \<Rightarrow> ErrorAccessDenied_asBoom this
      | C_ErrorDocumentNotFound \<Rightarrow> ErrorDocumentNotFound_asBoom this
      | C_ErrorFieldNotFound \<Rightarrow> ErrorFieldNotFound_asBoom this
      | C_ErrorFieldNotValid \<Rightarrow> ErrorFieldNotValid_asBoom this
      | C_ErrorFile \<Rightarrow> ErrorFile_asBoom this
      | _ \<Rightarrow> ErrorBase_asBoom this)"

text \<open>The expression \<^verbatim>\<open>new C(...).asBoom()\<close>: what the constructor throws is thrown.\<close>

definition then_asBoom :: "js_error + err \<Rightarrow> js_error + boom" where
  "then_asBoom r = (case r of Inl e \<Rightarrow> Inl e | Inr this \<Rightarrow> asBoom this)"

text \<open>
  What reaches \<^verbatim>\<open>toBoomError\<close> is an instance of one of the classes above or a foreign
  value. The console is the list of the argument lists \<^verbatim>\<open>console.error\<close> was called with.
  A foreign data value with a truthy \<^verbatim>\<open>asBoom\<close> is called and, not being a function, throws.
\<close>

datatype thrown = Domain err | Foreign jsval

type_synonym console = "jsval list list"

definition toBoomError :: "thrown \<Rightarrow> jsval \<Rightarrow> console \<Rightarrow> (js_error + boom) \<times> console" where
  "toBoomError e request con =
     (case e of
        Domain this \<Rightarrow> (asBoom this, con)
      | Foreign v \<Rightarrow>
          if v = Undefined \<or> v = Null then (Inl TypeError, con)
          else if truthy (get_prop v ''asBoom'') then (Inl TypeError, con)
          else if get_prop v ''name'' = Str ''CastError''
          then (map_sum id
                  (\<lambda>b. b\<lparr>payload_details :=
                           Some (Obj [(''fieldname'', get_prop v ''path''),
                                      (''message'', get_prop v ''message'')])\<rparr>)
                  (Boom_conflict (Str ''not valid'')), con)
          else (Boom_badImplementation (get_prop v ''message''),
                con @ [[Str ''[Error undefined]:'', get_prop v ''message'']]))"

section \<open>Properties\<close>

lemmas factory_defs = Boom_badData_def Boom_notImplemented_def Boom_forbidden_def
  Boom_notFound_def Boom_conflict_def Boom_badImplementation_def

lemmas asBoom_defs = ErrorBase_asBoom_def ErrorNotImplemented_asBoom_def ErrorTyped_asBoom_def
  ErrorNotFound_asBoom_def ErrorDuplicate_asBoom_def ErrorAccessDenied_asBoom_def
  ErrorDocumentNotFound_asBoom_def ErrorFieldNotFound_asBoom_def ErrorFieldNotValid_asBoom_def
  ErrorFile_asBoom_def

lemmas ctor_defs = Error_message_def ErrorBase_def ErrorNotImplemented_def ErrorTyped_def
  ErrorNotFound_def ErrorDuplicate_def ErrorAccessDenied_def ErrorDocumentNotFound_def
  ErrorFieldNotFound_def ErrorFieldNotValid_def ErrorFile_def ErrorBadRequest_def
  ErrorServerError_def ErrorUnknown_def

subsection \<open>Auxiliary facts\<close>

lemma map_sum_id_Inr: "map_sum id g r = Inr y \<longleftrightarrow> (\<exists>x. r = Inr x \<and> y = g x)"
  by (cases r) auto

text \<open>A factory called with a string: the reason phrase stands in for the empty string.\<close>

lemma Boom_new_Str:
  "Boom_new c r (Str s)
     = Inr \<lparr>boom_message = (if s = [] then r else s), output_statusCode = c, payload_error = r,
            payload_message = (if c = 500 then ''An internal server error occurred''
                               else if s = [] then r else s),
            payload_details = None\<rparr>"
  by (simp add: Boom_new_def Boom_error_message_def)

lemmas eval_defs = then_asBoom_def ctor_defs asBoom_defs factory_defs Boom_new_Str

text \<open>The message of an instance is a string, so its conversion never throws.\<close>

lemma asBoom_returns: "\<exists>b. asBoom this = Inr b"
  by (cases "cls this") (simp_all add: asBoom_defs factory_defs Boom_new_Str)

lemma ErrorBase_cls: "ErrorBase c msg status = Inr this \<Longrightarrow> cls this = c"
  by (auto simp: ErrorBase_def map_sum_id_Inr)

lemma constructed_cls:
  "ErrorNotImplemented m s = Inr this \<Longrightarrow> cls this = C_ErrorNotImplemented"
  "ErrorTyped ty m = Inr this \<Longrightarrow> cls this = C_ErrorTyped"
  "ErrorNotFound f m s = Inr this \<Longrightarrow> cls this = C_ErrorNotFound"
  "ErrorDuplicate f m s = Inr this \<Longrightarrow> cls this = C_ErrorDuplicate"
  "ErrorAccessDenied m s = Inr this \<Longrightarrow> cls this = C_ErrorAccessDenied"
  "ErrorDocumentNotFound f m s = Inr this \<Longrightarrow> cls this = C_ErrorDocumentNotFound"
  "ErrorFieldNotFound f m s = Inr this \<Longrightarrow> cls this = C_ErrorFieldNotFound"
  "ErrorFieldNotValid f m s = Inr this \<Longrightarrow> cls this = C_ErrorFieldNotValid"
  "ErrorFile f m s = Inr this \<Longrightarrow> cls this = C_ErrorFile"
  by (auto simp: ErrorNotImplemented_def ErrorTyped_def ErrorNotFound_def ErrorDuplicate_def
        ErrorAccessDenied_def ErrorDocumentNotFound_def ErrorFieldNotFound_def
        ErrorFieldNotValid_def ErrorFile_def Let_def map_sum_id_Inr
        split: sum.splits dest: ErrorBase_cls)

text \<open>The string conversion of a primitive value never throws.\<close>

lemma to_string_primitive: "\<not> instanceof_Object v \<Longrightarrow> \<exists>s. to_string v = Inr s"
  by (cases v) simp_all

lemma ErrorDataError_empty:
  assumes "\<not> instanceof_Object msg"
  shows "\<exists>this. ErrorDataError msg status = Inr this \<and> errors this = []"
proof -
  from assms have "\<not> instanceof_Object (if msg = Undefined then Str ''data error'' else msg)"
    by simp
  then obtain s where "to_string (if msg = Undefined then Str ''data error'' else msg) = Inr s"
    using to_string_primitive by blast
  with assms show ?thesis
    by (auto simp: ErrorDataError_def ErrorBase_def Error_message_def Let_def)
qed

subsection \<open>Status and kind of the variants that convert themselves\<close>




subsection \<open>The aggregator\<close>

text \<open>
  Claim C2, evaluated on the code. \<^verbatim>\<open>new ErrorDataError()\<close> followed by one \<^verbatim>\<open>add\<close> holds
  the status 401 in \<^verbatim>\<open>boomStatus\<close> and the record in \<^verbatim>\<open>errors\<close>, but the class declares
  no conversion, and the inherited one reads neither: the representation has status 422,
  the kind \<^verbatim>\<open>Unprocessable Entity\<close> and no details.
\<close>

theorem ErrorDataError_conversion_evaluated:
  "then_asBoom (map_sum id
       (\<lambda>this. add this (Str ''required'') (Str ''email'') (Str ''missing'') Undefined)
       (ErrorDataError Undefined Undefined))
     = Inr \<lparr>boom_message = ''data error'', output_statusCode = 422,
            payload_error = ''Unprocessable Entity'', payload_message = ''data error'',
            payload_details = None\<rparr>
   \<and> map_sum id boomStatus (map_sum id
       (\<lambda>this. add this (Str ''required'') (Str ''email'') (Str ''missing'') Undefined)
       (ErrorDataError Undefined Undefined)) = Inr (Num 401)
   \<and> map_sum id errors (map_sum id
       (\<lambda>this. add this (Str ''required'') (Str ''email'') (Str ''missing'') Undefined)
       (ErrorDataError Undefined Undefined))
     = Inr [Obj [(''type'', Str ''required''), (''fieldname'', Str ''email''),
                 (''message'', Str ''missing''), (''data'', Undefined)]]"
  by (simp add: eval_defs ErrorDataError_def add_def)

text \<open>
  Claim C6, as the code has it. An aggregator whose constructor argument is not an object
  is constructed, and starts empty; after two \<^verbatim>\<open>add\<close> calls on it \<^verbatim>\<open>length\<close> is 2 and
  \<^verbatim>\<open>error(0)\<close> is the first record as appended; for every aggregator \<open>a\<close> and every index
  \<open>i\<close> outside the range of its records, such as \<^verbatim>\<open>error(2)\<close> here, \<^verbatim>\<open>error\<close> returns
  \<^verbatim>\<open>undefined\<close>: nothing is thrown.
\<close>

theorem add_length_error:
  assumes "\<not> instanceof_Object msg" and "i < 0 \<or> int (length_errors a) \<le> i"
  shows "(\<exists>this. ErrorDataError msg status = Inr this
            \<and> length_errors (add (add this k1 f1 m1 d1) k2 f2 m2 d2) = 2
            \<and> error (add (add this k1 f1 m1 d1) k2 f2 m2 d2) 0
                = Obj [(''type'', k1), (''fieldname'', f1), (''message'', m1), (''data'', d1)]
            \<and> error (add (add this k1 f1 m1 d1) k2 f2 m2 d2) 2 = Undefined)
       \<and> error a i = Undefined"
proof -
  obtain this where "ErrorDataError msg status = Inr this" and "errors this = []"
    using ErrorDataError_empty [OF assms(1)] by blast
  then have "ErrorDataError msg status = Inr this
            \<and> length_errors (add (add this k1 f1 m1 d1) k2 f2 m2 d2) = 2
            \<and> error (add (add this k1 f1 m1 d1) k2 f2 m2 d2) 0
                = Obj [(''type'', k1), (''fieldname'', f1), (''message'', m1), (''data'', d1)]
            \<and> error (add (add this k1 f1 m1 d1) k2 f2 m2 d2) 2 = Undefined"
    by (simp add: add_def length_errors_def error_def)
  moreover from assms(2) have "error a i = Undefined"
    by (auto simp: length_errors_def error_def)
  ultimately show ?thesis by blast
qed

theorem add_length_error_witness:
  "\<not> instanceof_Object Undefined
   \<and> map_sum id (\<lambda>this. length_errors (add (add this
          (Str ''required'') (Str ''email'') (Str ''missing'') Undefined)
          (Str ''range'') (Str ''age'') (Str ''too low'') Undefined))
        (ErrorDataError Undefined Undefined) = Inr 2
   \<and> map_sum id (\<lambda>this. error (add (add this
          (Str ''required'') (Str ''email'') (Str ''missing'') Undefined)
          (Str ''range'') (Str ''age'') (Str ''too low'') Undefined) 0)
        (ErrorDataError Undefined Undefined)
       = Inr (Obj [(''type'', Str ''required''), (''fieldname'', Str ''email''),
              (''message'', Str ''missing''), (''data'', Undefined)])
   \<and> error (add \<lparr>cls = C_ErrorDataError, message = ''invalid'', boomStatus = Num 401,
          type = Undefined, name = Str ''ErrorDataError'', fieldname = Undefined,
          fieldName = Undefined, document = Undefined, fields' = Undefined, errors = []\<rparr>
          (Str ''required'') (Str ''email'') (Str ''missing'') Undefined) (- 1) = Undefined"
  using add_length_error [of Undefined "- 1" "add \<lparr>cls = C_ErrorDataError,
          message = ''invalid'', boomStatus = Num 401,
          type = Undefined, name = Str ''ErrorDataError'', fieldname = Undefined,
          fieldName = Undefined, document = Undefined, fields' = Undefined, errors = []\<rparr>
          (Str ''required'') (Str ''email'') (Str ''missing'') Undefined"
      Undefined "Str ''required''" "Str ''email''" "Str ''missing''" Undefined
      "Str ''range''" "Str ''age''" "Str ''too low''" Undefined]
  by (auto simp: length_errors_def add_def)

text \<open>
  \<^verbatim>\<open>error(2)\<close> on an aggregator of two records returns a value, \<^verbatim>\<open>undefined\<close>, where the
  claim has it fail.
\<close>

theorem error_out_of_range_counterexample:
  "map_sum id (\<lambda>this. error (add (add this
          (Str ''required'') (Str ''email'') (Str ''missing'') Undefined)
          (Str ''range'') (Str ''age'') (Str ''too low'') Undefined) 2)
        (ErrorDataError Undefined Undefined) = Inr Undefined"
  by (simp add: ErrorDataError_def ErrorBase_def Error_message_def add_def error_def)

subsection \<open>Single variants\<close>

text \<open>
  Claim C3, evaluated on the code. \<^verbatim>\<open>new ErrorNotFound()\<close> converts to status 404 with the
  message \<^verbatim>\<open>not found\<close>, but the sentinel \<^verbatim>\<open>no name\<close> is stored in the \<^verbatim>\<open>name\<close> property,
  while the conversion reads \<^verbatim>\<open>fieldname\<close>, which was never assigned: the details are
  \<^verbatim>\<open>{fieldname: undefined}\<close>.
\<close>

theorem ErrorNotFound_no_arguments:
  "then_asBoom (ErrorNotFound Undefined Undefined Undefined)
     = Inr \<lparr>boom_message = ''not found'', output_statusCode = 404,
            payload_error = ''Not Found'', payload_message = ''not found'',
            payload_details = Some (Obj [(''fieldname'', Undefined)])\<rparr>
   \<and> map_sum id message (ErrorNotFound Undefined Undefined Undefined) = Inr ''not found''
   \<and> map_sum id name (ErrorNotFound Undefined Undefined Undefined) = Inr (Str ''no name'')
   \<and> map_sum id fieldname (ErrorNotFound Undefined Undefined Undefined) = Inr Undefined"
  by (simp add: eval_defs)

text \<open>
  Claim C7, evaluated on the code. \<^verbatim>\<open>new ErrorFieldNotAllowed()\<close>, with \<^verbatim>\<open>fields\<close> omitted,
  throws a \<^verbatim>\<open>TypeError\<close>: the parameter has no default, and the message template reads
  \<^verbatim>\<open>fields.length\<close>.
\<close>

theorem ErrorFieldNotAllowed_fields_omitted:
  "ErrorFieldNotAllowed Undefined Undefined Undefined = Inl TypeError"
  by (simp add: ErrorFieldNotAllowed_def)

text \<open>
  Claim C8, as the code has it. \<^verbatim>\<open>ErrorFieldNotAllowed\<close> built from \<^verbatim>\<open>["a","b"]\<close> and no
  message has the message \<^verbatim>\<open>fields "a, b" not defined\<close>; built from the empty list it does
  not throw and has the message \<^verbatim>\<open>field "" not defined\<close>, in the singular, since the plural
  is chosen for more than one field.
\<close>

theorem ErrorFieldNotAllowed_message:
  "map_sum id message (ErrorFieldNotAllowed (Arr [Str ''a'', Str ''b'']) Undefined status)
     = Inr ''fields \"a, b\" not defined''
   \<and> map_sum id message (ErrorFieldNotAllowed (Arr []) Undefined status)
     = Inr ''field \"\" not defined''"
  by (simp add: ErrorFieldNotAllowed_def ErrorBase_def Error_message_def)

text \<open>The message for the empty list is not the one with the plural.\<close>

theorem ErrorFieldNotAllowed_empty_counterexample:
  "map_sum id message (ErrorFieldNotAllowed (Arr []) Undefined Undefined)
     \<noteq> Inr ''fields \"\" not defined''"
  by (simp add: ErrorFieldNotAllowed_def ErrorBase_def Error_message_def)

text \<open>
  Claim C9. For every message and every status given to the constructor, an
  \<^verbatim>\<open>ErrorAccessDenied\<close> converts to status 403, by its own \<^verbatim>\<open>asBoom\<close> and through
  \<^verbatim>\<open>toBoomError\<close>: for a message that is a string or omitted the constructor returns and
  the conversion gives 403, and so it does for every instance the constructor returns on
  any other message.
\<close>

theorem ErrorAccessDenied_status:
  "map_sum id output_statusCode (then_asBoom (ErrorAccessDenied (Str s) status)) = Inr 403
   \<and> map_sum id output_statusCode (then_asBoom (ErrorAccessDenied Undefined status)) = Inr 403
   \<and> (\<forall>this. ErrorAccessDenied msg status = Inr this \<longrightarrow>
         map_sum id output_statusCode (asBoom this) = Inr 403
         \<and> map_sum id output_statusCode (fst (toBoomError (Domain this) request con))
             = Inr 403)"
  by (intro conjI allI impI)
    (simp_all add: constructed_cls toBoomError_def ErrorAccessDenied_asBoom_def
       Boom_forbidden_def Boom_new_Str then_asBoom_def ErrorAccessDenied_def ErrorBase_def
       Error_message_def)

theorem ErrorAccessDenied_status_witness:
  "map_sum id output_statusCode
     (then_asBoom (ErrorAccessDenied (Str ''members only'') (Num 401))) = Inr 403
   \<and> map_sum id output_statusCode
     (then_asBoom (ErrorAccessDenied (Bool True) (Num 401))) = Inr 403"
  using ErrorAccessDenied_status [of "''members only''" "Num 401" "Bool True" Undefined "[]"]
  by (simp add: then_asBoom_def ErrorAccessDenied_def ErrorBase_def Error_message_def)

text \<open>
  Claim C10. For every field name \<open>f\<close>, \<^verbatim>\<open>ErrorFieldNotValid\<close> built with the message
  \<^verbatim>\<open>false\<close> has the message \<open>f\<close> and converts to status 409 with the details
  \<^verbatim>\<open>{fieldname: " -- no field --", message: f}\<close>; built with any other message, its message
  is that argument as a string (\<^verbatim>\<open>data not valid\<close> when omitted) and the \<^verbatim>\<open>fieldname\<close> of
  the details is \<open>f\<close>; the constructor throws exactly where the string conversion of the
  message does.
\<close>

theorem ErrorFieldNotValid_message_false:
  "map_sum id message (ErrorFieldNotValid (Str f) (Bool False) status) = Inr f
   \<and> then_asBoom (ErrorFieldNotValid (Str f) (Bool False) status)
       = Inr \<lparr>boom_message = ''not valid'', output_statusCode = 409,
              payload_error = ''Conflict'', payload_message = ''not valid'',
              payload_details = Some (Obj [(''fieldname'', Str '' -- no field --''),
                                           (''message'', Str f)])\<rparr>
   \<and> (msg \<noteq> Bool False \<longrightarrow>
        map_sum id message (ErrorFieldNotValid (Str f) msg status)
          = (if msg = Undefined then Inr ''data not valid'' else to_string msg)
        \<and> then_asBoom (ErrorFieldNotValid (Str f) msg status)
          = map_sum id
              (\<lambda>s. \<lparr>boom_message = ''not valid'', output_statusCode = 409,
                     payload_error = ''Conflict'', payload_message = ''not valid'',
                     payload_details = Some (Obj [(''fieldname'', Str f),
                                                  (''message'', Str s)])\<rparr>)
              (if msg = Undefined then Inr ''data not valid'' else to_string msg))"
  by (cases "to_string msg")
    (simp_all add: then_asBoom_def ErrorFieldNotValid_def ErrorBase_def Error_message_def
       ErrorFieldNotValid_asBoom_def Boom_conflict_def Boom_new_Str Let_def)

theorem ErrorFieldNotValid_message_false_witness:
  "map_sum id message (ErrorFieldNotValid (Str ''age'') (Bool False) Undefined) = Inr ''age''
   \<and> Str ''too low'' \<noteq> Bool False
   \<and> map_sum id message (ErrorFieldNotValid (Str ''age'') (Str ''too low'') Undefined)
       = Inr ''too low''
   \<and> map_sum id payload_details
        (then_asBoom (ErrorFieldNotValid (Str ''age'') (Str ''too low'') Undefined))
       = Inr (Some (Obj [(''fieldname'', Str ''age''), (''message'', Str ''too low'')]))
   \<and> map_sum id message (ErrorFieldNotValid (Str ''age'') Undefined Undefined)
       = Inr ''data not valid''"
  using ErrorFieldNotValid_message_false [of "''age''" Undefined "Str ''too low''"]
    ErrorFieldNotValid_message_false [of "''age''" Undefined Undefined]
  by simp

subsection \<open>Foreign errors\<close>

text \<open>
  Claim C4, as the code has it. A foreign value without a truthy \<^verbatim>\<open>asBoom\<close> whose \<^verbatim>\<open>name\<close>
  is \<^verbatim>\<open>CastError\<close> converts, whatever its \<^verbatim>\<open>path\<close> and \<^verbatim>\<open>message\<close>, to status 409 with
  the details \<^verbatim>\<open>{fieldname: path, message: message}\<close>: the key is \<^verbatim>\<open>fieldname\<close>, in lower
  case. Nothing is written to the console.
\<close>

theorem toBoomError_CastError:
  assumes "\<not> truthy (get_prop v ''asBoom'')" and "get_prop v ''name'' = Str ''CastError''"
  shows "toBoomError (Foreign v) request con
     = (Inr \<lparr>boom_message = ''not valid'', output_statusCode = 409,
             payload_error = ''Conflict'', payload_message = ''not valid'',
             payload_details = Some (Obj [(''fieldname'', get_prop v ''path''),
                                          (''message'', get_prop v ''message'')])\<rparr>, con)"
  using assms by (auto simp: toBoomError_def Boom_conflict_def Boom_new_Str)

theorem toBoomError_CastError_witness:
  "toBoomError (Foreign (Obj [(''name'', Str ''CastError''), (''path'', Str ''age''),
       (''message'', Str ''bad type'')])) Undefined []
     = (Inr \<lparr>boom_message = ''not valid'', output_statusCode = 409,
             payload_error = ''Conflict'', payload_message = ''not valid'',
             payload_details = Some (Obj [(''fieldname'', Str ''age''),
                                          (''message'', Str ''bad type'')])\<rparr>, [])"
  using toBoomError_CastError [of "Obj [(''name'', Str ''CastError''), (''path'', Str ''age''),
       (''message'', Str ''bad type'')]" Undefined "[]"]
  by simp

text \<open>The details of the converted cast error are not the ones keyed \<^verbatim>\<open>fieldName\<close>.\<close>

theorem toBoomError_CastError_fieldName_counterexample:
  "map_sum id payload_details
     (fst (toBoomError (Foreign (Obj [(''name'', Str ''CastError''), (''path'', Str ''age''),
       (''message'', Str ''bad type'')])) Undefined []))
     \<noteq> Inr (Some (Obj [(''fieldName'', Str ''age''), (''message'', Str ''bad type'')]))"
  by (simp add: toBoomError_def Boom_conflict_def Boom_new_Str)




end
